theory Spec2Isabelle
  imports
    Complex_Main
    "HOL-Library.AList"
    "HOL-Library.Multiset"
    "HOL-Library.Sublist"
    "HOL-Library.Char_ord"
    "HOL-Library.List_Lexorder"
begin

section \<open>Python values, exceptions and dicts\<close>

text \<open>
  The route handlers of \<^verbatim>\<open>api_routes.py\<close> and \<^verbatim>\<open>jobsearch.py\<close> wrap their body in
  \<^verbatim>\<open>try: ... except Exception as e:\<close>. A raise is a value: \<open>Exc msg\<close> is an instance
  of \<^verbatim>\<open>Exception\<close> whose \<^verbatim>\<open>str(e)\<close> is \<open>msg\<close>; \<open>BaseExc msg\<close> is a
  \<^verbatim>\<open>BaseException\<close> outside \<^verbatim>\<open>Exception\<close> (a cancelled task, a keyboard interrupt),
  which \<^verbatim>\<open>except Exception\<close> does not catch.
\<close>

datatype py_exc = Exc string | BaseExc string

text \<open>
  A job and a resume are Python dicts from field names to values. The values of this
  model are numbers (of any linearly ordered type \<open>'s\<close>, so no NaN) and strings. A dict
  keeps its keys in insertion order: \<^verbatim>\<open>d[k] = v\<close> overwrites in place or appends, which
  is \<^const>\<open>AList.update\<close>; \<^verbatim>\<open>d[k]\<close> raises \<^verbatim>\<open>KeyError\<close> on a missing key.
\<close>

datatype 's pyval = Num 's | Str string

type_synonym 's pydict = "(string \<times> 's pyval) list"

definition getitem :: "'s pydict \<Rightarrow> string \<Rightarrow> py_exc + 's pyval" where
  "getitem d k =
     (case map_of d k of
        None \<Rightarrow> Inl (Exc ([CHR 0x27] @ k @ [CHR 0x27]))
      | Some v \<Rightarrow> Inr v)"

text \<open>\<^verbatim>\<open>if resume_data:\<close> with \<^verbatim>\<open>resume_data: dict = None\<close>: \<^verbatim>\<open>None\<close> and the
  empty dict are both false.\<close>

definition truthy :: "'s pydict option \<Rightarrow> bool" where
  "truthy d = (case d of None \<Rightarrow> False | Some kv \<Rightarrow> kv \<noteq> [])"

subsection \<open>The builtin \<^verbatim>\<open>sorted(xs, key=..., reverse=True)\<close>\<close>

text \<open>
  CPython computes the key of every element first (the first key that raises ends the
  call), reverses the list, sorts it stably in ascending key order and reverses it again.
  Numbers compare with numbers and strings with strings; a comparison of a number with a
  string raises \<^verbatim>\<open>TypeError\<close>, and a list of two or more elements with keys of both
  kinds cannot be sorted without one.
\<close>

fun collect :: "('a \<Rightarrow> py_exc + 'b) \<Rightarrow> 'a list \<Rightarrow> py_exc + 'b list" where
  "collect f [] = Inr []"
| "collect f (x # xs) =
     (case f x of
        Inl e \<Rightarrow> Inl e
      | Inr y \<Rightarrow> (case collect f xs of Inl e \<Rightarrow> Inl e | Inr ys \<Rightarrow> Inr (y # ys)))"

fun nums :: "'s pyval list \<Rightarrow> 's list option" where
  "nums [] = Some []"
| "nums (Num n # vs) = (case nums vs of None \<Rightarrow> None | Some ns \<Rightarrow> Some (n # ns))"
| "nums (Str s # vs) = None"

fun strs :: "'s pyval list \<Rightarrow> string list option" where
  "strs [] = Some []"
| "strs (Str s # vs) = (case strs vs of None \<Rightarrow> None | Some ss \<Rightarrow> Some (s # ss))"
| "strs (Num n # vs) = None"

definition stable_reverse_sort :: "'k::linorder list \<Rightarrow> 'a list \<Rightarrow> 'a list" where
  "stable_reverse_sort ks xs = map snd (rev (sort_key fst (rev (zip ks xs))))"

definition sorted_reverse ::
  "('a \<Rightarrow> py_exc + ('s::linorder) pyval) \<Rightarrow> 'a list \<Rightarrow> py_exc + 'a list" where
  "sorted_reverse key xs =
     (case collect key xs of
        Inl e \<Rightarrow> Inl e
      | Inr ks \<Rightarrow>
          (case nums ks of
             Some ns \<Rightarrow> Inr (stable_reverse_sort ns xs)
           | None \<Rightarrow>
               (case strs ks of
                  Some ss \<Rightarrow> Inr (stable_reverse_sort ss xs)
                | None \<Rightarrow> Inl (Exc ''TypeError''))))"

section \<open>The route handlers\<close>

text \<open>
  The JSON object a handler returns. The two handlers build objects of different shapes
  (\<^verbatim>\<open>count\<close> and \<^verbatim>\<open>sources\<close> in \<^verbatim>\<open>jobsearch.py\<close>, \<^verbatim>\<open>total\<close> in
  \<^verbatim>\<open>api_routes.py\<close>); a key that an object does not have is \<open>None\<close>.
\<close>

record 's response =
  success :: bool
  jobs :: "'s pydict list"
  total :: "nat option"
  count :: "nat option"
  sources :: "string list option"
  error :: "string option"
  timestamp :: "string option"

text \<open>\<^verbatim>\<open>try: body except Exception as e: handler(str(e))\<close>, both returning.\<close>

definition try_except :: "py_exc + 'a \<Rightarrow> (string \<Rightarrow> 'a) \<Rightarrow> py_exc + 'a" where
  "try_except body handler =
     (case body of
        Inr r \<Rightarrow> Inr r
      | Inl (Exc msg) \<Rightarrow> Inr (handler msg)
      | Inl (BaseExc msg) \<Rightarrow> Inl (BaseExc msg))"

text \<open>
  The scraper returns a list of dict objects, and the loop of the handler assigns into
  them in place. The objects live in a store, at addresses; the list holds addresses,
  and the same object may stand in the list more than once. The JSON body of a response
  holds the dicts themselves, read from the store when the handler returns.
\<close>

type_synonym 's store = "nat \<Rightarrow> 's pydict"

text \<open>
  \<^verbatim>\<open>for job in jobs: job['match_percentage'] = matcher.calculate_match_percentage(job)\<close>.
  Each call sees the object as the assignments before it left it; the first call that
  raises ends the loop.
\<close>

fun score_jobs ::
  "('s pydict \<Rightarrow> py_exc + 's) \<Rightarrow> nat list \<Rightarrow> 's store \<Rightarrow> py_exc + 's store" where
  "score_jobs calculate [] objs = Inr objs"
| "score_jobs calculate (job # rest) objs =
     (case calculate (objs job) of
        Inl e \<Rightarrow> Inl e
      | Inr p \<Rightarrow>
          score_jobs calculate rest
            (objs(job := AList.update ''match_percentage'' (Num p) (objs job))))"

text \<open>
  \<^verbatim>\<open>search_jobs_realtime\<close> of \<^verbatim>\<open>api_routes.py\<close>. The modules \<^verbatim>\<open>real_job_scraper\<close> and
  \<^verbatim>\<open>job_matcher\<close> are not part of the sources, so the handler takes what it calls as
  parameters: \<open>scrape_all_sources\<close> (the awaited call returns a list of objects, that is
  addresses and a store, or raises), the constructor \<open>JobMatcher\<close> (returns a matcher or
  raises), the method \<open>calculate_match_percentage\<close> (reads a job; returns a number or
  raises), and \<open>now\<close>, the text of \<^verbatim>\<open>datetime.now().isoformat()\<close>. Logging does not touch
  the response and is left out.
\<close>

definition search_jobs_realtime ::
  "(string \<Rightarrow> string \<Rightarrow> py_exc + nat list \<times> 's store) \<Rightarrow>
   ('s pydict \<Rightarrow> py_exc + 'm) \<Rightarrow>
   ('m \<Rightarrow> 's pydict \<Rightarrow> py_exc + ('s::linorder)) \<Rightarrow>
   string \<Rightarrow> string \<Rightarrow> string \<Rightarrow> 's pydict option \<Rightarrow> py_exc + 's response" where
  "search_jobs_realtime scrape_all_sources JobMatcher calculate_match_percentage now
       job_title location resume_data =
     try_except
       (case scrape_all_sources job_title location of
          Inl e \<Rightarrow> Inl e
        | Inr (scraped, objs) \<Rightarrow>
            (case (case resume_data of
                     None \<Rightarrow> Inr (scraped, objs)
                   | Some resume \<Rightarrow>
                       if truthy resume_data then
                         (case JobMatcher resume of
                            Inl e \<Rightarrow> Inl e
                          | Inr matcher \<Rightarrow>
                              (case score_jobs (calculate_match_percentage matcher)
                                      scraped objs of
                                 Inl e \<Rightarrow> Inl e
                               | Inr scored \<Rightarrow>
                                   (case sorted_reverse
                                           (\<lambda>x. getitem (scored x) ''match_percentage'')
                                           scraped of
                                      Inl e \<Rightarrow> Inl e
                                    | Inr ranked \<Rightarrow> Inr (ranked, scored))))
                       else Inr (scraped, objs)) of
               Inl e \<Rightarrow> Inl e
             | Inr (ranked, final) \<Rightarrow>
                 Inr \<lparr>success = True, jobs = map final ranked,
                      total = Some (length ranked),
                      count = None, sources = None, error = None, timestamp = Some now\<rparr>))
       (\<lambda>msg. \<lparr>success = False, jobs = [], total = None, count = None, sources = None,
                error = Some msg, timestamp = None\<rparr>)"

text \<open>\<^verbatim>\<open>search_jobs\<close> of \<^verbatim>\<open>jobsearch.py\<close> (route \<^verbatim>\<open>/api/v1/jobs/search-by-title-city\<close>).\<close>

definition search_jobs ::
  "(string \<Rightarrow> string \<Rightarrow> py_exc + nat list \<times> 's store) \<Rightarrow>
   string \<Rightarrow> string \<Rightarrow> string \<Rightarrow> py_exc + 's response" where
  "search_jobs scrape_all_sources now job_title city =
     try_except
       (case scrape_all_sources job_title city of
          Inl e \<Rightarrow> Inl e
        | Inr (scraped, objs) \<Rightarrow>
            Inr \<lparr>success = True, jobs = map objs scraped, total = None,
                 count = Some (length scraped),
                 sources = Some [''Indeed'', ''LinkedIn'', ''Naukri'', ''Glassdoor''],
                 error = None, timestamp = Some now\<rparr>)
       (\<lambda>msg. \<lparr>success = True, jobs = [], total = None, count = Some 0, sources = None,
                error = Some ''Real job sources temporarily unavailable'',
                timestamp = None\<rparr>)"

section \<open>Components modelled from the spec\<close>

text \<open>
  The deduplicator and the matcher live in modules that the sources import and do not
  contain (\<^verbatim>\<open>real_job_scraper\<close>, \<^verbatim>\<open>job_matcher\<close>). They are written here from
  sections 3, 4.3 and 4.4 of the specification. Scores are exact rationals; the spec's
  float is a whole number after the final rounding.
\<close>

subsection \<open>The data model\<close>

text \<open>Modelled from the spec: the record \<^verbatim>\<open>JobPosting\<close> of section 3, which the sources
  only handle as a dict.\<close>

record JobPosting =
  source :: string
  externalId :: string
  title :: string
  company :: string
  location :: string
  description :: string
  url :: string
  postedAt :: "nat option"
  salaryRange :: "(rat \<times> rat \<times> string) option"
  skillsMentioned :: "string set"
  matchPercentage :: "rat option"

text \<open>Modelled from the spec: the record \<^verbatim>\<open>ResumeRecord\<close> of section 3, which the sources
  only handle as a dict (its \<^verbatim>\<open>location\<close> is \<open>resume_location\<close> here).\<close>

record ResumeRecord =
  skills :: "string set"
  yearsExperience :: "rat option"
  titles :: "string list"
  education :: string
  resume_location :: "string option"

subsection \<open>Text and URL normalization\<close>

text \<open>Modelled from the spec: lowercasing, for "case-insensitively" and "lowercase
  scheme/host" in section 4.3; the missing deduplicator would use the language's own.\<close>

definition lower_char :: "char \<Rightarrow> char" where
  "lower_char c =
     (case map_of (zip ''ABCDEFGHIJKLMNOPQRSTUVWXYZ'' ''abcdefghijklmnopqrstuvwxyz'') c of
        None \<Rightarrow> c
      | Some l \<Rightarrow> l)"

text \<open>Modelled from the spec: lowercasing of a whole string, missing with the
  deduplicator.\<close>

definition lower :: "string \<Rightarrow> string" where
  "lower s = map lower_char s"

text \<open>Modelled from the spec: splitting a string at every separator character, missing
  with the deduplicator.\<close>

fun splits :: "(char \<Rightarrow> bool) \<Rightarrow> string \<Rightarrow> string list" where
  "splits sep [] = [[]]"
| "splits sep (c # cs) =
     (if sep c then [] # splits sep cs
      else (case splits sep cs of [] \<Rightarrow> [[c]] | w # ws \<Rightarrow> (c # w) # ws))"

text \<open>Modelled from the spec: joining strings with a separator, missing with the
  deduplicator.\<close>

fun join :: "string \<Rightarrow> string list \<Rightarrow> string" where
  "join sep [] = []"
| "join sep [w] = w"
| "join sep (w # ws) = w @ sep @ join sep ws"

text \<open>Modelled from the spec: the whitespace characters of "whitespace normalization"
  (space, tab, line feed, carriage return).\<close>

definition is_space :: "char \<Rightarrow> bool" where
  "is_space c = (c \<in> set [CHR '' '', CHR 0x09, CHR 0x0A, CHR 0x0D])"

text \<open>Modelled from the spec: the words of a text, for "whitespace normalization" in
  section 4.3 and "token-overlap" in section 4.4.\<close>

definition tokens :: "string \<Rightarrow> string list" where
  "tokens s = filter (\<lambda>w. w \<noteq> []) (splits is_space s)"

text \<open>Modelled from the spec: the form in which titles, companies and locations are
  compared, "case-insensitively after whitespace normalization": lowercase words, one
  space between them.\<close>

definition normalize_text :: "string \<Rightarrow> string" where
  "normalize_text s = lower (join '' '' (tokens s))"

text \<open>Modelled from the spec: cutting a URL at its first \<^verbatim>\<open>://\<close>, missing with the
  deduplicator.\<close>

fun split_scheme :: "string \<Rightarrow> (string \<times> string) option" where
  "split_scheme [] = None"
| "split_scheme (c # cs) =
     (if take 3 (c # cs) = ''://'' then Some ([], drop 3 (c # cs))
      else (case split_scheme cs of None \<Rightarrow> None | Some (s, r) \<Rightarrow> Some (c # s, r)))"

text \<open>Modelled from the spec: "strip tracking query parameters". The spec names no list
  of tracking parameters (its example strips \<^verbatim>\<open>ref\<close>), so their names are the parameter
  \<open>tracking\<close>.\<close>

definition strip_tracking :: "string list \<Rightarrow> string \<Rightarrow> string" where
  "strip_tracking tracking rest =
     (let path = takeWhile (\<lambda>c. c \<noteq> CHR ''?'') rest;
          query = drop 1 (dropWhile (\<lambda>c. c \<noteq> CHR ''?'') rest);
          kept = filter (\<lambda>p. p \<noteq> [] \<and> takeWhile (\<lambda>c. c \<noteq> CHR ''='') p \<notin> set tracking)
                   (splits (\<lambda>c. c = CHR ''&'') query)
      in path @ (if kept = [] then [] else CHR ''?'' # join ''&'' kept))"

text \<open>Modelled from the spec: URL normalization of section 4.3, "strip tracking query
  parameters, lowercase scheme/host".\<close>

definition normalize_url :: "string list \<Rightarrow> string \<Rightarrow> string" where
  "normalize_url tracking u =
     (case split_scheme u of
        None \<Rightarrow> strip_tracking tracking u
      | Some (scheme, rest) \<Rightarrow>
          lower scheme @ ''://'' @
          lower (takeWhile (\<lambda>c. c \<notin> set ''/?#'') rest) @
          strip_tracking tracking (dropWhile (\<lambda>c. c \<notin> set ''/?#'') rest))"

subsection \<open>The deduplicator\<close>

text \<open>Modelled from the spec: when two postings are duplicates (section 4.3): (a) equal
  URLs after normalization, or (b) title, company and location all equal
  case-insensitively after whitespace normalization.\<close>

definition same_posting :: "string list \<Rightarrow> JobPosting \<Rightarrow> JobPosting \<Rightarrow> bool" where
  "same_posting tracking a b =
     (normalize_url tracking (url a) = normalize_url tracking (url b) \<or>
      (normalize_text (title a) = normalize_text (title b) \<and>
       normalize_text (company a) = normalize_text (company b) \<and>
       normalize_text (location a) = normalize_text (location b)))"




subsection \<open>The matcher\<close>

text \<open>Modelled from the spec: the error a division by zero would raise in the missing
  matcher.\<close>

datatype calc_error = ZeroDivisionError

text \<open>Modelled from the spec: the division of section 4.4, which fails on a zero
  denominator.\<close>

definition divide_by :: "rat \<Rightarrow> rat \<Rightarrow> calc_error + rat" where
  "divide_by a b = (if b = 0 then Inl ZeroDivisionError else Inr (a / b))"

text \<open>Modelled from the spec: "sub-scores are each clamped to [0,1]".\<close>

definition clamp01 :: "rat \<Rightarrow> rat" where
  "clamp01 x = max 0 (min 1 x)"

text \<open>Modelled from the spec: skill overlap, "size of intersection of resume.skills and
  job.skillsMentioned divided by size of job.skillsMentioned (guard against empty
  denominator)".\<close>

definition skill_overlap :: "ResumeRecord \<Rightarrow> JobPosting \<Rightarrow> calc_error + rat" where
  "skill_overlap resume job =
     (if card (skillsMentioned job) = 0 then Inr 0
      else divide_by (of_nat (card (skills resume \<inter> skillsMentioned job)))
             (of_nat (card (skillsMentioned job))))"

text \<open>Modelled from the spec: title similarity, the "token-overlap ratio between
  job.title and the most recent entry of resume.titles": shared words over all words of
  the two titles, the most recent entry taken to be the last of the sequence, and 0 when
  there is no title to compare.\<close>

definition title_similarity :: "ResumeRecord \<Rightarrow> JobPosting \<Rightarrow> calc_error + rat" where
  "title_similarity resume job =
     (if titles resume = [] then Inr 0
      else
        (let a = set (tokens (lower (title job)));
             b = set (tokens (lower (last (titles resume))))
         in if card (a \<union> b) = 0 then Inr 0
            else divide_by (of_nat (card (a \<inter> b))) (of_nat (card (a \<union> b)))))"

text \<open>Modelled from the spec: experience fit, "1.0 if resume.yearsExperience falls within
  an inferred experience band, decaying linearly outside the band, 0.5 default when the
  band cannot be inferred". The spec gives neither how the band is read from the posting
  nor the slope, so both are parameters (\<open>infer_band\<close>, \<open>decay\<close>); a resume without
  years of experience scores 0.\<close>

definition experience_fit ::
  "(JobPosting \<Rightarrow> (rat \<times> rat) option) \<Rightarrow> rat \<Rightarrow> ResumeRecord \<Rightarrow> JobPosting \<Rightarrow> rat" where
  "experience_fit infer_band decay resume job =
     (case infer_band job of
        None \<Rightarrow> 1 / 2
      | Some (lo, hi) \<Rightarrow>
          (case yearsExperience resume of
             None \<Rightarrow> 0
           | Some y \<Rightarrow>
               if lo \<le> y \<and> y \<le> hi then 1
               else if y < lo then 1 - decay * (lo - y)
               else 1 - decay * (y - hi)))"

text \<open>Modelled from the spec: \<^verbatim>\<open>calculateMatchPercentage(resume, job)\<close> of section 4.4,
  the sub-scores clamped, weighted 60, 25 and 15 percent, scaled to [0,100] and rounded
  to the nearest integer.\<close>

definition calculateMatchPercentage ::
  "(JobPosting \<Rightarrow> (rat \<times> rat) option) \<Rightarrow> rat \<Rightarrow> ResumeRecord \<Rightarrow> JobPosting
     \<Rightarrow> calc_error + rat" where
  "calculateMatchPercentage infer_band decay resume job =
     (case skill_overlap resume job of
        Inl e \<Rightarrow> Inl e
      | Inr s \<Rightarrow>
          (case title_similarity resume job of
             Inl e \<Rightarrow> Inl e
           | Inr t \<Rightarrow>
               Inr (of_int (round
                 (100 * (60 / 100 * clamp01 s + 25 / 100 * clamp01 t +
                         15 / 100 * clamp01 (experience_fit infer_band decay resume job)))))))"

section \<open>What the claims speak of\<close>

text \<open>A list of jobs is in descending order of \<^verbatim>\<open>match_percentage\<close>: every job has
  the key, with a number, and the numbers never increase along the list.\<close>

definition descending_by_match :: "('s::linorder) pydict list \<Rightarrow> bool" where
  "descending_by_match js =
     (case collect (\<lambda>x. getitem x ''match_percentage'') js of
        Inl e \<Rightarrow> False
      | Inr ks \<Rightarrow> (case nums ks of None \<Rightarrow> False | Some ns \<Rightarrow> sorted (rev ns)))"

text \<open>A handler's outcome is a success result set: it returned (no exception left the
  handler, which would be a server error) and the object is flagged \<^verbatim>\<open>"success": True\<close>.\<close>

definition success_result_set :: "py_exc + 's response \<Rightarrow> bool" where
  "success_result_set out = (case out of Inl e \<Rightarrow> False | Inr r \<Rightarrow> success r)"

text \<open>The object reports the length of its own \<^verbatim>\<open>jobs\<close> list, as \<^verbatim>\<open>count\<close> or as
  \<^verbatim>\<open>total\<close>.\<close>

definition reports_length :: "'s response \<Rightarrow> bool" where
  "reports_length r =
     (count r = Some (length (jobs r)) \<or> total r = Some (length (jobs r)))"





subsection \<open>Example requests\<close>

definition example_objs :: "int store" where
  "example_objs a = [(''id'', Num (int a + 1))]"

definition example_scraper :: "string \<Rightarrow> string \<Rightarrow> py_exc + nat list \<times> int store" where
  "example_scraper job_title loc = Inr ([0, 1, 2], example_objs)"

definition example_score :: "int pydict \<Rightarrow> int" where
  "example_score job = (if map_of job ''id'' = Some (Num 3) then 90 else 80)"

definition failing_scraper :: "string \<Rightarrow> string \<Rightarrow> py_exc + nat list \<times> int store" where
  "failing_scraper job_title loc = Inl (Exc ''connection refused'')"

definition prescored_scraper :: "string \<Rightarrow> string \<Rightarrow> py_exc + nat list \<times> int store" where
  "prescored_scraper job_title loc =
     Inr ([0, 1],
          \<lambda>a. [(''id'', Num (int a + 1)),
               (''match_percentage'', Num (if a = 0 then 10 else 90))])"

text \<open>A scraper whose list holds its first object twice, and a matcher whose score
  depends on whether the job already has a \<^verbatim>\<open>match_percentage\<close>.\<close>

definition aliased_scraper :: "string \<Rightarrow> string \<Rightarrow> py_exc + nat list \<times> int store" where
  "aliased_scraper job_title loc = Inr ([0, 1, 0], example_objs)"

definition rescore :: "int pydict \<Rightarrow> int" where
  "rescore job = (if map_of job ''match_percentage'' = None then 10 else 20)"

definition posting ::
  "string \<Rightarrow> string \<Rightarrow> string \<Rightarrow> string \<Rightarrow> string \<Rightarrow> string set \<Rightarrow> JobPosting" where
  "posting u t c l d sk =
     \<lparr>source = ''indeed'', externalId = [], title = t, company = c, location = l,
      description = d, url = u, postedAt = None, salaryRange = None,
      skillsMentioned = sk, matchPercentage = None\<rparr>"

definition example_resume :: ResumeRecord where
  "example_resume =
     \<lparr>skills = {''python'', ''sql''}, yearsExperience = Some 4,
      titles = [''Junior Developer'', ''Software Engineer''], education = ''BSc'',
      resume_location = Some ''Austin''\<rparr>"

section \<open>Verification of the route handlers\<close>

subsection \<open>The sort\<close>

lemma getitem_update: "getitem (AList.update k v d) k = Inr v"
  by (simp add: getitem_def update_conv')

lemma collect_Inr:
  "(\<And>x. x \<in> set xs \<Longrightarrow> key x = Inr (g x)) \<Longrightarrow> collect key xs = Inr (map g xs)"
  by (induction xs) simp_all

lemma collect_map_Inr:
  "(\<And>x. x \<in> set xs \<Longrightarrow> key (h x) = Inr (g x)) \<Longrightarrow> collect key (map h xs) = Inr (map g xs)"
  by (induction xs) simp_all

lemma nums_map_Num: "nums (map (\<lambda>x. Num (g x)) xs) = Some (map g xs)"
  by (induction xs) simp_all

lemma insort_key_fst_map:
  "insort_key fst (f x, x) (map (\<lambda>y. (f y, y)) zs) = map (\<lambda>y. (f y, y)) (insort_key f x zs)"
  by (induction zs) simp_all

lemma sort_key_fst_map:
  "sort_key fst (map (\<lambda>y. (f y, y)) ys) = map (\<lambda>y. (f y, y)) (sort_key f ys)"
  by (induction ys) (simp_all add: insort_key_fst_map)

lemma stable_reverse_sort_keys:
  "stable_reverse_sort (map f xs) xs = rev (sort_key f (rev xs))"
proof -
  have "zip (map f xs) xs = map (\<lambda>y. (f y, y)) xs"
    by (induction xs) simp_all
  then show ?thesis
    by (simp add: stable_reverse_sort_def rev_map sort_key_fst_map comp_def)
qed

lemma filter_desc_stable:
  "filter (\<lambda>y. f y = k) (rev (sort_key f (rev xs))) = filter (\<lambda>y. f y = k) xs"
  by (simp add: rev_filter [symmetric] sort_key_stable)

lemma sorted_reverse_nums:
  assumes "\<And>x. x \<in> set xs \<Longrightarrow> key x = Inr (Num (g x))"
  shows "sorted_reverse key xs = Inr (rev (sort_key g (rev xs)))"
proof -
  have "collect key xs = Inr (map (\<lambda>x. Num (g x)) xs)"
    using assms by (rule collect_Inr)
  then show ?thesis
    by (simp add: sorted_reverse_def nums_map_Num stable_reverse_sort_keys)
qed

lemma descending_sorted:
  assumes "\<And>x. x \<in> set xs \<Longrightarrow> getitem (st x) ''match_percentage'' = Inr (Num (g x))"
  shows "descending_by_match (map st (rev (sort_key g (rev xs))))"
proof -
  let ?ys = "rev (sort_key g (rev xs))"
  have "collect (\<lambda>j. getitem j ''match_percentage'') (map st ?ys) = Inr (map (\<lambda>x. Num (g x)) ?ys)"
    by (rule collect_map_Inr) (simp add: assms)
  then show ?thesis
    by (simp add: descending_by_match_def nums_map_Num rev_map)
qed

subsection \<open>The scoring loop, assigning in place\<close>

lemma score_jobs_keeps_score:
  "score_jobs calc refs st = Inr st' \<Longrightarrow>
   \<exists>p. getitem (st b) ''match_percentage'' = Inr (Num p) \<Longrightarrow>
   \<exists>p. getitem (st' b) ''match_percentage'' = Inr (Num p)"
proof (induction refs arbitrary: st)
  case Nil
  then show ?case by simp
next
  case (Cons a refs)
  from Cons.prems(1) obtain p where
    p: "calc (st a) = Inr p"
    and rest: "score_jobs calc refs (st(a := AList.update ''match_percentage'' (Num p) (st a))) = Inr st'"
    by (auto split: sum.splits)
  have "\<exists>q. getitem ((st(a := AList.update ''match_percentage'' (Num p) (st a))) b)
            ''match_percentage'' = Inr (Num q)"
    using Cons.prems(2) by (cases "b = a") (auto simp: getitem_update)
  with rest show ?case by (rule Cons.IH)
qed

lemma score_jobs_scores_all:
  "score_jobs calc refs st = Inr st' \<Longrightarrow> a \<in> set refs \<Longrightarrow>
   \<exists>p. getitem (st' a) ''match_percentage'' = Inr (Num p)"
proof (induction refs arbitrary: st)
  case Nil
  then show ?case by simp
next
  case (Cons b refs)
  from Cons.prems(1) obtain p where
    p: "calc (st b) = Inr p"
    and rest: "score_jobs calc refs (st(b := AList.update ''match_percentage'' (Num p) (st b))) = Inr st'"
    by (auto split: sum.splits)
  show ?case
  proof (cases "a \<in> set refs")
    case True
    with rest show ?thesis by (rule Cons.IH)
  next
    case False
    with Cons.prems(2) have "a = b" by simp
    then have "\<exists>q. getitem ((st(b := AList.update ''match_percentage'' (Num p) (st b))) a)
            ''match_percentage'' = Inr (Num q)"
      by (simp add: getitem_update)
    with rest show ?thesis by (rule score_jobs_keeps_score)
  qed
qed

lemma score_jobs_frame:
  assumes "score_jobs calc refs st = Inr st'"
  shows "(a \<notin> set refs \<longrightarrow> st' a = st a) \<and>
         (a \<in> set refs \<longrightarrow>
            (\<exists>p. st' a = AList.update ''match_percentage'' (Num p) (st a) \<and>
                 (if count_list refs a = 1 then calc (st a) = Inr p
                  else \<exists>q. calc (AList.update ''match_percentage'' (Num q) (st a)) = Inr p)))"
  using assms
proof (induction refs arbitrary: st)
  case Nil
  then show ?case by simp
next
  case (Cons b refs)
  let ?st1 = "\<lambda>p. st(b := AList.update ''match_percentage'' (Num p) (st b))"
  from Cons.prems obtain p0 where
    p0: "calc (st b) = Inr p0"
    and rest: "score_jobs calc refs (?st1 p0) = Inr st'"
    by (auto split: sum.splits)
  note IH = Cons.IH [OF rest]
  show ?case
  proof (cases "a = b")
    case False
    then have "?st1 p0 a = st a" "count_list (b # refs) a = count_list refs a"
      by simp_all
    with IH False show ?thesis by (simp cong: if_cong)
  next
    case True
    show ?thesis
    proof (cases "b \<in> set refs")
      case False
      then have "count_list refs b = 0" by (simp add: count_list_0_iff)
      with IH False True p0 show ?thesis by simp
    next
      case in_rest: True
      with IH True obtain p where
        p: "st' b = AList.update ''match_percentage'' (Num p) (?st1 p0 b)"
        and src: "if count_list refs b = 1 then calc (?st1 p0 b) = Inr p
                  else \<exists>q. calc (AList.update ''match_percentage'' (Num q) (?st1 p0 b)) = Inr p"
        by auto
      from in_rest have "count_list refs b \<noteq> 0" by (simp add: count_list_0_iff)
      moreover from src have "\<exists>q. calc (AList.update ''match_percentage'' (Num q) (st b)) = Inr p"
        by (auto split: if_splits)
      ultimately show ?thesis using True p by auto
    qed
  qed
qed

lemma score_jobs_other_keys:
  assumes "score_jobs calc refs st = Inr st'" and "k \<noteq> ''match_percentage''"
  shows "map_of (st' a) k = map_of (st a) k"
proof (cases "a \<in> set refs")
  case True
  with score_jobs_frame [OF assms(1), of a] obtain p where
    "st' a = AList.update ''match_percentage'' (Num p) (st a)" by auto
  with assms(2) show ?thesis by (simp add: update_conv')
next
  case False
  with score_jobs_frame [OF assms(1), of a] show ?thesis by simp
qed

text \<open>
  The loop runs to its end when the matcher returns a score for every job it is given;
  on a list of separate objects it is enough that it returns one for every scraped job.
\<close>

lemma score_jobs_total:
  "(\<And>j. \<exists>p. calc j = Inr p) \<Longrightarrow> \<exists>st'. score_jobs calc refs st = Inr st'"
proof (induction refs arbitrary: st)
  case Nil
  then show ?case by simp
next
  case (Cons a refs)
  from Cons.prems obtain p where "calc (st a) = Inr p" by blast
  with Cons show ?case by simp
qed

lemma score_jobs_distinct:
  "distinct refs \<Longrightarrow> (\<And>a. a \<in> set refs \<Longrightarrow> \<exists>p. calc (st a) = Inr p) \<Longrightarrow>
   \<exists>st'. score_jobs calc refs st = Inr st'"
proof (induction refs arbitrary: st)
  case Nil
  then show ?case by simp
next
  case (Cons a refs)
  from Cons.prems(2) obtain p where p: "calc (st a) = Inr p" by auto
  let ?st1 = "st(a := AList.update ''match_percentage'' (Num p) (st a))"
  have "\<exists>q. calc (?st1 b) = Inr q" if "b \<in> set refs" for b
    using that Cons.prems by (cases "b = a") auto
  with Cons.prems(1) have "\<exists>st'. score_jobs calc refs ?st1 = Inr st'"
    by (intro Cons.IH) auto
  with p show ?case by simp
qed

subsection \<open>The two paths of the real-time handler\<close>

lemma realtime_ranked:
  assumes "scrape t l = Inr (refs, objs)" and "r \<noteq> []" and "JobMatcher r = Inr m"
    and "score_jobs (calc m) refs objs = Inr scored"
    and "\<And>a. a \<in> set refs \<Longrightarrow> getitem (scored a) ''match_percentage'' = Inr (Num (g a))"
  shows "search_jobs_realtime scrape JobMatcher calc now t l (Some r) =
     Inr \<lparr>success = True, jobs = map scored (rev (sort_key g (rev refs))),
          total = Some (length refs), count = None, sources = None, error = None,
          timestamp = Some now\<rparr>"
proof -
  have "sorted_reverse (\<lambda>x. getitem (scored x) ''match_percentage'') refs
          = Inr (rev (sort_key g (rev refs)))"
    using assms(5) by (rule sorted_reverse_nums)
  then show ?thesis
    using assms(1-4)
    by (simp add: search_jobs_realtime_def try_except_def truthy_def)
qed

lemma realtime_unranked:
  assumes "scrape t l = Inr (refs, objs)" and "\<not> truthy resume_data"
  shows "search_jobs_realtime scrape JobMatcher calc now t l resume_data =
     Inr \<lparr>success = True, jobs = map objs refs,
          total = Some (length refs), count = None, sources = None, error = None,
          timestamp = Some now\<rparr>"
  using assms
  by (cases resume_data) (simp_all add: search_jobs_realtime_def try_except_def)

lemma scores_function:
  assumes "score_jobs calc refs objs = Inr scored"
  shows "\<exists>g. \<forall>a\<in>set refs. getitem (scored a) ''match_percentage'' = Inr (Num (g a))"
proof -
  have "\<forall>a\<in>set refs. \<exists>p. getitem (scored a) ''match_percentage'' = Inr (Num p)"
    using assms by (blast dest: score_jobs_scores_all)
  then show ?thesis by (rule bchoice)
qed

subsection \<open>The example requests, evaluated\<close>

lemma example_scored:
  "score_jobs (\<lambda>j. Inr (example_score j)) [0, 1, 2] example_objs =
     Inr (\<lambda>a. if a < 3 then AList.update ''match_percentage''
                          (Num (example_score (example_objs a))) (example_objs a)
              else example_objs a)"
  by (auto simp: fun_eq_iff example_objs_def example_score_def)

lemma aliased_scored:
  "score_jobs (\<lambda>j. Inr (rescore j)) [0, 1, 0] example_objs =
     Inr (\<lambda>a. if a = 0 then [(''id'', Num 1), (''match_percentage'', Num 20)]
              else if a = 1 then [(''id'', Num 2), (''match_percentage'', Num 10)]
              else example_objs a)"
  by (auto simp: fun_eq_iff example_objs_def rescore_def)

lemma example_ranked_response:
  "search_jobs_realtime example_scraper (\<lambda>r. Inr ()) (\<lambda>m j. Inr (example_score j))
       ''2026-01-01T00:00:00'' ''Engineer'' ''Austin'' (Some [(''skills'', Str ''python'')]) =
     Inr \<lparr>success = True,
          jobs = [[(''id'', Num 3), (''match_percentage'', Num 90)],
                  [(''id'', Num 1), (''match_percentage'', Num 80)],
                  [(''id'', Num 2), (''match_percentage'', Num 80)]],
          total = Some 3, count = None, sources = None, error = None,
          timestamp = Some ''2026-01-01T00:00:00''\<rparr>"
  by (simp add: search_jobs_realtime_def try_except_def example_scraper_def truthy_def
      example_score_def example_objs_def sorted_reverse_def getitem_def stable_reverse_sort_def)

lemma aliased_response:
  "search_jobs_realtime aliased_scraper (\<lambda>r. Inr ()) (\<lambda>m j. Inr (rescore j))
       ''2026-01-01T00:00:00'' ''Engineer'' ''Austin'' (Some [(''skills'', Str ''python'')]) =
     Inr \<lparr>success = True,
          jobs = [[(''id'', Num 1), (''match_percentage'', Num 20)],
                  [(''id'', Num 1), (''match_percentage'', Num 20)],
                  [(''id'', Num 2), (''match_percentage'', Num 10)]],
          total = Some 3, count = None, sources = None, error = None,
          timestamp = Some ''2026-01-01T00:00:00''\<rparr>"
  by (simp add: search_jobs_realtime_def try_except_def aliased_scraper_def truthy_def
      rescore_def example_objs_def sorted_reverse_def getitem_def stable_reverse_sort_def)

subsection \<open>Responses when scraping fails\<close>

text \<open>
  C1, as amended. When \<open>scrape_all_sources\<close> raises an \<^verbatim>\<open>Exception\<close>, neither handler
  raises, and both return an object with an empty \<^verbatim>\<open>jobs\<close> list and an error note.
  \<^verbatim>\<open>search_jobs\<close> of \<^verbatim>\<open>jobsearch.py\<close> flags it \<^verbatim>\<open>"success": True\<close> with
  \<^verbatim>\<open>"count": 0\<close> and a fixed note; \<^verbatim>\<open>search_jobs_realtime\<close> of \<^verbatim>\<open>api_routes.py\<close>
  flags it \<^verbatim>\<open>"success": False\<close> and carries the text of the exception. Whatever the
  scraper does short of a \<^verbatim>\<open>BaseException\<close>, \<^verbatim>\<open>search_jobs\<close> returns a success result
  set.
\<close>

theorem search_failure_response:
  "((\<forall>b. scrape job_title loc \<noteq> Inl (BaseExc b)) \<longrightarrow>
      success_result_set (search_jobs scrape now job_title loc)) \<and>
   (scrape job_title loc = Inl (Exc msg) \<longrightarrow>
      search_jobs scrape now job_title loc =
        Inr \<lparr>success = True, jobs = [], total = None, count = Some 0, sources = None,
             error = Some ''Real job sources temporarily unavailable'', timestamp = None\<rparr> \<and>
      search_jobs_realtime scrape JobMatcher calculate now job_title loc resume_data =
        Inr \<lparr>success = False, jobs = [], total = None, count = None, sources = None,
             error = Some msg, timestamp = None\<rparr>)"
proof (intro conjI impI)
  assume "\<forall>b. scrape job_title loc \<noteq> Inl (BaseExc b)"
  then show "success_result_set (search_jobs scrape now job_title loc)"
    by (cases "scrape job_title loc")
       (auto simp: success_result_set_def search_jobs_def try_except_def split: py_exc.splits)
next
  assume "scrape job_title loc = Inl (Exc msg)"
  then show "search_jobs scrape now job_title loc =
        Inr \<lparr>success = True, jobs = [], total = None, count = Some 0, sources = None,
             error = Some ''Real job sources temporarily unavailable'', timestamp = None\<rparr>"
    by (simp add: search_jobs_def try_except_def)
next
  assume "scrape job_title loc = Inl (Exc msg)"
  then show "search_jobs_realtime scrape JobMatcher calculate now job_title loc resume_data =
        Inr \<lparr>success = False, jobs = [], total = None, count = None, sources = None,
             error = Some msg, timestamp = None\<rparr>"
    by (simp add: search_jobs_realtime_def try_except_def)
qed

theorem search_failure_response_witness:
  "success_result_set
     (search_jobs failing_scraper ''2026-01-01T00:00:00'' ''Engineer'' ''Austin'') \<and>
   search_jobs failing_scraper ''2026-01-01T00:00:00'' ''Engineer'' ''Austin'' =
     Inr \<lparr>success = True, jobs = [], total = None, count = Some 0, sources = None,
          error = Some ''Real job sources temporarily unavailable'', timestamp = None\<rparr> \<and>
   search_jobs_realtime failing_scraper (\<lambda>r. Inr ()) (\<lambda>m j. Inr (example_score j))
       ''2026-01-01T00:00:00'' ''Engineer'' ''Austin'' None =
     Inr \<lparr>success = False, jobs = [], total = None, count = None, sources = None,
          error = Some ''connection refused'', timestamp = None\<rparr>"
  using search_failure_response
    [of failing_scraper "''Engineer''" "''Austin''" "''2026-01-01T00:00:00''"
        "''connection refused''" "\<lambda>r. Inr ()" "\<lambda>m j. Inr (example_score j)" None]
  by (simp add: failing_scraper_def success_result_set_def)

text \<open>C1 as stated fails on the real-time handler: with a scraper that raises, its
  response is flagged as a failure.\<close>

theorem realtime_failure_flagged:
  "\<not> success_result_set
       (search_jobs_realtime failing_scraper (\<lambda>r. Inr ()) (\<lambda>m j. Inr (example_score j))
          ''2026-01-01T00:00:00'' ''Engineer'' ''Austin'' None)"
  by (simp add: success_result_set_def search_jobs_realtime_def try_except_def
      failing_scraper_def)

subsection \<open>The reported length\<close>

text \<open>
  C9, as amended. Every object \<^verbatim>\<open>search_jobs\<close> returns carries \<^verbatim>\<open>count\<close>, equal to the
  length of its \<^verbatim>\<open>jobs\<close> list (0 and the empty list on the exception path). Every
  object \<^verbatim>\<open>search_jobs_realtime\<close> returns with \<^verbatim>\<open>"success": True\<close> carries
  \<^verbatim>\<open>total\<close>, equal to the length of its \<^verbatim>\<open>jobs\<close> list; the object of its exception
  path has an empty \<^verbatim>\<open>jobs\<close> list and neither \<^verbatim>\<open>total\<close> nor \<^verbatim>\<open>count\<close>.
\<close>

theorem reported_length:
  "(search_jobs scrape now job_title city = Inr r \<longrightarrow>
      count r = Some (length (jobs r)) \<and> reports_length r) \<and>
   (search_jobs_realtime scrape JobMatcher calculate now job_title loc resume_data = Inr r'
      \<longrightarrow> (if success r' then total r' = Some (length (jobs r')) \<and> reports_length r'
           else jobs r' = [] \<and> total r' = None \<and> count r' = None))"
proof -
  have "count r = Some (length (jobs r)) \<and> reports_length r"
    if "search_jobs scrape now job_title city = Inr r"
    using that
    by (auto simp: search_jobs_def try_except_def reports_length_def
        split: sum.splits py_exc.splits prod.splits)
  moreover
  have "if success r' then total r' = Some (length (jobs r')) \<and> reports_length r'
        else jobs r' = [] \<and> total r' = None \<and> count r' = None"
    if "search_jobs_realtime scrape JobMatcher calculate now job_title loc resume_data
          = Inr r'"
    using that
    by (auto simp: search_jobs_realtime_def try_except_def reports_length_def
        split: sum.splits py_exc.splits option.splits if_splits prod.splits)
  ultimately show ?thesis by blast
qed

theorem reported_length_witness:
  "search_jobs example_scraper ''2026-01-01T00:00:00'' ''Engineer'' ''Austin'' =
     Inr \<lparr>success = True, jobs = [[(''id'', Num 1)], [(''id'', Num 2)], [(''id'', Num 3)]],
          total = None, count = Some 3,
          sources = Some [''Indeed'', ''LinkedIn'', ''Naukri'', ''Glassdoor''],
          error = None, timestamp = Some ''2026-01-01T00:00:00''\<rparr> \<and>
   Some (3::nat) = Some (length [[(''id'', Num 1)], [(''id'', Num 2)], [(''id'', Num (3::int))]]) \<and>
   search_jobs_realtime example_scraper (\<lambda>r. Inr ()) (\<lambda>m j. Inr (example_score j))
       ''2026-01-01T00:00:00'' ''Engineer'' ''Austin'' None =
     Inr \<lparr>success = True, jobs = [[(''id'', Num 1)], [(''id'', Num 2)], [(''id'', Num 3)]],
          total = Some 3, count = None, sources = None, error = None,
          timestamp = Some ''2026-01-01T00:00:00''\<rparr> \<and>
   search_jobs failing_scraper ''2026-01-01T00:00:00'' ''Engineer'' ''Austin'' =
     Inr \<lparr>success = True, jobs = [], total = None, count = Some 0, sources = None,
          error = Some ''Real job sources temporarily unavailable'', timestamp = None\<rparr> \<and>
   search_jobs_realtime failing_scraper (\<lambda>r. Inr ()) (\<lambda>m j. Inr (example_score j))
       ''2026-01-01T00:00:00'' ''Engineer'' ''Austin'' None =
     Inr \<lparr>success = False, jobs = [], total = None, count = None, sources = None,
          error = Some ''connection refused'', timestamp = None\<rparr>"
proof -
  let ?now = "''2026-01-01T00:00:00''"
  let ?js = "[[(''id'', Num 1)], [(''id'', Num 2)], [(''id'', Num (3::int))]]"
  let ?r1 = "\<lparr>success = True, jobs = ?js, total = None, count = Some 3,
          sources = Some [''Indeed'', ''LinkedIn'', ''Naukri'', ''Glassdoor''],
          error = None, timestamp = Some ?now\<rparr>"
  let ?r2 = "\<lparr>success = True, jobs = ?js, total = Some 3, count = None, sources = None,
          error = None, timestamp = Some ?now\<rparr>"
  let ?r3 = "\<lparr>success = True, jobs = ([] :: int pydict list), total = None, count = Some 0,
          sources = None, error = Some ''Real job sources temporarily unavailable'',
          timestamp = None\<rparr>"
  let ?r4 = "\<lparr>success = False, jobs = ([] :: int pydict list), total = None, count = None,
          sources = None, error = Some ''connection refused'', timestamp = None\<rparr>"
  have e1: "search_jobs example_scraper ?now ''Engineer'' ''Austin'' = Inr ?r1"
    by (simp add: search_jobs_def try_except_def example_scraper_def example_objs_def)
  have e2: "search_jobs_realtime example_scraper (\<lambda>r. Inr ()) (\<lambda>m j. Inr (example_score j))
       ?now ''Engineer'' ''Austin'' None = Inr ?r2"
    by (simp add: search_jobs_realtime_def try_except_def example_scraper_def example_objs_def)
  have e3: "search_jobs failing_scraper ?now ''Engineer'' ''Austin'' = Inr ?r3"
    by (simp add: search_jobs_def try_except_def failing_scraper_def)
  have e4: "search_jobs_realtime failing_scraper (\<lambda>r. Inr ()) (\<lambda>m j. Inr (example_score j))
       ?now ''Engineer'' ''Austin'' None = Inr ?r4"
    by (simp add: search_jobs_realtime_def try_except_def failing_scraper_def)
  from reported_length [of example_scraper ?now "''Engineer''" "''Austin''" ?r1
      "\<lambda>r. Inr ()" "\<lambda>m j. Inr (example_score j)" "''Austin''" None ?r2]
    reported_length [of failing_scraper ?now "''Engineer''" "''Austin''" ?r3
      "\<lambda>r. Inr ()" "\<lambda>m j. Inr (example_score j)" "''Austin''" None ?r4]
    e1 e2 e3 e4
  show ?thesis by simp
qed

text \<open>C9 as stated fails on the exception path of the real-time handler: its object
  reports no length at all.\<close>

theorem realtime_failure_reports_no_total:
  "\<not> reports_length
       \<lparr>success = False, jobs = ([] :: int pydict list), total = None, count = None,
        sources = None, error = Some ''connection refused'', timestamp = None\<rparr> \<and>
   search_jobs_realtime failing_scraper (\<lambda>r. Inr ()) (\<lambda>m j. Inr (example_score j))
       ''2026-01-01T00:00:00'' ''Engineer'' ''Austin'' None =
     Inr \<lparr>success = False, jobs = [], total = None, count = None, sources = None,
          error = Some ''connection refused'', timestamp = None\<rparr>"
  by (simp add: reports_length_def search_jobs_realtime_def try_except_def failing_scraper_def)

subsection \<open>Ranking\<close>

text \<open>
  C2, as amended. When a non-empty resume dict is supplied to \<^verbatim>\<open>search_jobs_realtime\<close>,
  the scraper returns and the scoring loop runs to its end (the matcher returns a score
  at every call), the returned list is in descending order of \<^verbatim>\<open>match_percentage\<close>,
  and for every score the jobs with that score stand in the order they had before the
  sort: scores 80, 80, 90 for ids 1, 2, 3 give the order 3, 1, 2. This holds also when
  the scraped list holds the same dict object more than once.
\<close>

theorem ranked_descending_stable:
  assumes "scrape job_title loc = Inr (scraped, objs)"
    and "resume \<noteq> []"
    and "JobMatcher resume = Inr m"
    and "score_jobs (calculate m) scraped objs = Inr scored"
  shows "\<exists>r. search_jobs_realtime scrape JobMatcher calculate now job_title loc
               (Some resume) = Inr r \<and>
             descending_by_match (jobs r) \<and>
             (\<forall>p. filter (\<lambda>j. getitem j ''match_percentage'' = Inr (Num p)) (jobs r) =
                  filter (\<lambda>j. getitem j ''match_percentage'' = Inr (Num p))
                    (map scored scraped))"
proof -
  from scores_function [OF assms(4)] obtain g where
    g: "\<And>a. a \<in> set scraped \<Longrightarrow> getitem (scored a) ''match_percentage'' = Inr (Num (g a))"
    by blast
  let ?ranked = "rev (sort_key g (rev scraped))"
  have "search_jobs_realtime scrape JobMatcher calculate now job_title loc (Some resume) =
     Inr \<lparr>success = True, jobs = map scored ?ranked,
          total = Some (length scraped), count = None, sources = None, error = None,
          timestamp = Some now\<rparr>"
    using assms g by (rule realtime_ranked)
  moreover have "descending_by_match (map scored ?ranked)"
    using g by (rule descending_sorted)
  moreover have "filter (\<lambda>j. getitem j ''match_percentage'' = Inr (Num p)) (map scored ?ranked) =
      filter (\<lambda>j. getitem j ''match_percentage'' = Inr (Num p)) (map scored scraped)"
    for p
  proof -
    have eq: "filter (\<lambda>j. getitem j ''match_percentage'' = Inr (Num p)) (map scored xs) =
        map scored (filter (\<lambda>a. g a = p) xs)" if "set xs \<subseteq> set scraped" for xs
      using that by (induction xs) (simp_all add: g)
    show ?thesis
      by (simp only: eq [of ?ranked, simplified] eq [of scraped, simplified] filter_desc_stable)
  qed
  ultimately show ?thesis by simp
qed

theorem ranked_descending_stable_witness:
  "search_jobs_realtime example_scraper (\<lambda>r. Inr ()) (\<lambda>m j. Inr (example_score j))
       ''2026-01-01T00:00:00'' ''Engineer'' ''Austin'' (Some [(''skills'', Str ''python'')]) =
     Inr \<lparr>success = True,
          jobs = [[(''id'', Num 3), (''match_percentage'', Num 90)],
                  [(''id'', Num 1), (''match_percentage'', Num 80)],
                  [(''id'', Num 2), (''match_percentage'', Num 80)]],
          total = Some 3, count = None, sources = None, error = None,
          timestamp = Some ''2026-01-01T00:00:00''\<rparr> \<and>
   descending_by_match
     [[(''id'', Num 3), (''match_percentage'', Num 90)],
      [(''id'', Num 1), (''match_percentage'', Num 80)],
      [(''id'', Num (2::int)), (''match_percentage'', Num 80)]] \<and>
   filter (\<lambda>j. getitem j ''match_percentage'' = Inr (Num 80))
     [[(''id'', Num 3), (''match_percentage'', Num 90)],
      [(''id'', Num 1), (''match_percentage'', Num 80)],
      [(''id'', Num (2::int)), (''match_percentage'', Num 80)]] =
     [[(''id'', Num 1), (''match_percentage'', Num 80)],
      [(''id'', Num 2), (''match_percentage'', Num 80)]]"
proof -
  let ?now = "''2026-01-01T00:00:00''"
  let ?resume = "[(''skills'', Str ''python'')] :: int pydict"
  let ?scored = "\<lambda>a. if a < 3 then AList.update ''match_percentage''
                          (Num (example_score (example_objs a))) (example_objs a)
              else example_objs a"
  have s: "example_scraper ''Engineer'' ''Austin'' = Inr ([0, 1, 2], example_objs)"
    by (simp add: example_scraper_def)
  from ranked_descending_stable [of example_scraper "''Engineer''" "''Austin''" "[0, 1, 2]"
      example_objs ?resume "\<lambda>r. Inr ()" "()" "\<lambda>m j. Inr (example_score j)" ?scored ?now]
    s example_scored example_ranked_response
  show ?thesis
    by (auto simp: example_objs_def example_score_def getitem_def)
qed

text \<open>C2 as stated fails when the resume supplied is the empty dict: the handler skips
  the sort, and jobs that arrive scored 10 and 90 leave in that order.\<close>

theorem empty_resume_not_ranked:
  "search_jobs_realtime prescored_scraper (\<lambda>r. Inr ()) (\<lambda>m j. Inr (example_score j))
       ''2026-01-01T00:00:00'' ''Engineer'' ''Austin'' (Some []) =
     Inr \<lparr>success = True,
          jobs = [[(''id'', Num 1), (''match_percentage'', Num 10)],
                  [(''id'', Num 2), (''match_percentage'', Num 90)]],
          total = Some 2, count = None, sources = None, error = None,
          timestamp = Some ''2026-01-01T00:00:00''\<rparr> \<and>
   \<not> descending_by_match
       [[(''id'', Num 1), (''match_percentage'', Num 10)],
        [(''id'', Num (2::int)), (''match_percentage'', Num 90)]]"
  by (simp add: search_jobs_realtime_def try_except_def prescored_scraper_def truthy_def
      descending_by_match_def getitem_def)

subsection \<open>When matching is applied\<close>

text \<open>
  C3, as amended. Matching is applied if and only if \<^verbatim>\<open>resume_data\<close> is true in Python's
  sense, that is supplied and not the empty dict. With \<^verbatim>\<open>resume_data\<close> absent or empty
  the scraped list is returned as it is, whatever the matcher would do; with a non-empty
  \<^verbatim>\<open>resume_data\<close> (the scoring loop running to its end) every returned job is scored
  and the list is ranked: it is the scraped list sorted stably in descending order of
  the scores the loop left in the jobs.
\<close>

theorem matching_iff_truthy:
  assumes "scrape job_title loc = Inr (scraped, objs)"
  shows "(\<not> truthy resume_data \<longrightarrow>
            search_jobs_realtime scrape JobMatcher calculate now job_title loc resume_data =
              Inr \<lparr>success = True, jobs = map objs scraped, total = Some (length scraped),
                   count = None, sources = None, error = None, timestamp = Some now\<rparr>) \<and>
         (truthy resume_data \<and> resume_data = Some resume \<and> JobMatcher resume = Inr m \<and>
            score_jobs (calculate m) scraped objs = Inr scored \<longrightarrow>
            (\<exists>g. (\<forall>a\<in>set scraped. getitem (scored a) ''match_percentage'' = Inr (Num (g a))) \<and>
                 search_jobs_realtime scrape JobMatcher calculate now job_title loc resume_data =
                   Inr \<lparr>success = True,
                        jobs = map scored (rev (sort_key g (rev scraped))),
                        total = Some (length scraped),
                        count = None, sources = None, error = None, timestamp = Some now\<rparr> \<and>
                 descending_by_match (map scored (rev (sort_key g (rev scraped))))))"
proof (intro conjI impI)
  assume "\<not> truthy resume_data"
  with assms show "search_jobs_realtime scrape JobMatcher calculate now job_title loc resume_data =
              Inr \<lparr>success = True, jobs = map objs scraped, total = Some (length scraped),
                   count = None, sources = None, error = None, timestamp = Some now\<rparr>"
    by (rule realtime_unranked)
next
  assume a: "truthy resume_data \<and> resume_data = Some resume \<and> JobMatcher resume = Inr m \<and>
            score_jobs (calculate m) scraped objs = Inr scored"
  then have r: "resume \<noteq> []" "resume_data = Some resume" "JobMatcher resume = Inr m"
    and s: "score_jobs (calculate m) scraped objs = Inr scored"
    by (auto simp: truthy_def)
  from scores_function [OF s] obtain g where
    g: "\<And>a. a \<in> set scraped \<Longrightarrow> getitem (scored a) ''match_percentage'' = Inr (Num (g a))"
    by blast
  have "search_jobs_realtime scrape JobMatcher calculate now job_title loc (Some resume) =
     Inr \<lparr>success = True, jobs = map scored (rev (sort_key g (rev scraped))),
          total = Some (length scraped), count = None, sources = None, error = None,
          timestamp = Some now\<rparr>"
    using assms r(1,3) s g by (rule realtime_ranked)
  moreover have "descending_by_match (map scored (rev (sort_key g (rev scraped))))"
    using g by (rule descending_sorted)
  ultimately show "\<exists>g. (\<forall>a\<in>set scraped. getitem (scored a) ''match_percentage'' = Inr (Num (g a))) \<and>
                 search_jobs_realtime scrape JobMatcher calculate now job_title loc resume_data =
                   Inr \<lparr>success = True,
                        jobs = map scored (rev (sort_key g (rev scraped))),
                        total = Some (length scraped),
                        count = None, sources = None, error = None, timestamp = Some now\<rparr> \<and>
                 descending_by_match (map scored (rev (sort_key g (rev scraped))))"
    using g r(2) by (intro exI [of _ g]) simp
qed

theorem matching_iff_truthy_witness:
  "search_jobs_realtime example_scraper (\<lambda>r. Inr ()) (\<lambda>m j. Inr (example_score j))
       ''2026-01-01T00:00:00'' ''Engineer'' ''Austin'' None =
     Inr \<lparr>success = True,
          jobs = [[(''id'', Num 1)], [(''id'', Num 2)], [(''id'', Num 3)]],
          total = Some 3, count = None, sources = None, error = None,
          timestamp = Some ''2026-01-01T00:00:00''\<rparr> \<and>
   search_jobs_realtime example_scraper (\<lambda>r. Inr ()) (\<lambda>m j. Inr (example_score j))
       ''2026-01-01T00:00:00'' ''Engineer'' ''Austin'' (Some [(''skills'', Str ''python'')]) =
     Inr \<lparr>success = True,
          jobs = [[(''id'', Num 3), (''match_percentage'', Num 90)],
                  [(''id'', Num 1), (''match_percentage'', Num 80)],
                  [(''id'', Num 2), (''match_percentage'', Num 80)]],
          total = Some 3, count = None, sources = None, error = None,
          timestamp = Some ''2026-01-01T00:00:00''\<rparr>"
proof -
  let ?now = "''2026-01-01T00:00:00''"
  let ?resume = "[(''skills'', Str ''python'')] :: int pydict"
  let ?scored = "\<lambda>a. if a < 3 then AList.update ''match_percentage''
                          (Num (example_score (example_objs a))) (example_objs a)
              else example_objs a"
  have s: "example_scraper ''Engineer'' ''Austin'' = Inr ([0, 1, 2], example_objs)"
    by (simp add: example_scraper_def)
  from s matching_iff_truthy [where scrape = example_scraper and job_title = "''Engineer''"
      and loc = "''Austin''" and scraped = "[0, 1, 2]" and objs = example_objs
      and resume_data = None
      and JobMatcher = "\<lambda>r. Inr ()" and calculate = "\<lambda>m j. Inr (example_score j)"
      and now = ?now and m = "()" and resume = ?resume and scored = ?scored]
  have 1: "search_jobs_realtime example_scraper (\<lambda>r. Inr ()) (\<lambda>m j. Inr (example_score j))
       ?now ''Engineer'' ''Austin'' None =
     Inr \<lparr>success = True, jobs = [[(''id'', Num 1)], [(''id'', Num 2)], [(''id'', Num 3)]],
          total = Some 3, count = None, sources = None, error = None,
          timestamp = Some ?now\<rparr>"
    by (simp add: truthy_def example_objs_def)
  from s example_scored
    matching_iff_truthy [where scrape = example_scraper and job_title = "''Engineer''"
      and loc = "''Austin''" and scraped = "[0, 1, 2]" and objs = example_objs
      and resume_data = "Some ?resume"
      and JobMatcher = "\<lambda>r. Inr ()" and calculate = "\<lambda>m j. Inr (example_score j)"
      and now = ?now and m = "()" and resume = ?resume and scored = ?scored]
    example_ranked_response
  have 2: "search_jobs_realtime example_scraper (\<lambda>r. Inr ())
       (\<lambda>m j. Inr (example_score j)) ?now ''Engineer'' ''Austin'' (Some ?resume) =
     Inr \<lparr>success = True,
          jobs = [[(''id'', Num 3), (''match_percentage'', Num 90)],
                  [(''id'', Num 1), (''match_percentage'', Num 80)],
                  [(''id'', Num 2), (''match_percentage'', Num 80)]],
          total = Some 3, count = None, sources = None, error = None,
          timestamp = Some ?now\<rparr>"
    by blast
  from 1 2 show ?thesis by simp
qed

text \<open>C3 as stated fails when the resume supplied is the empty dict: the jobs come back
  as scraped, and none has a \<^verbatim>\<open>match_percentage\<close>.\<close>

theorem empty_resume_not_matched:
  "search_jobs_realtime example_scraper (\<lambda>r. Inr ()) (\<lambda>m j. Inr (example_score j))
       ''2026-01-01T00:00:00'' ''Engineer'' ''Austin'' (Some []) =
     Inr \<lparr>success = True,
          jobs = [[(''id'', Num 1)], [(''id'', Num 2)], [(''id'', Num 3)]],
          total = Some 3, count = None, sources = None, error = None,
          timestamp = Some ''2026-01-01T00:00:00''\<rparr> \<and>
   collect (\<lambda>x. getitem x ''match_percentage'')
       [[(''id'', Num 1)], [(''id'', Num 2)], [(''id'', Num (3::int))]] =
     Inl (Exc ([CHR 0x27] @ ''match_percentage'' @ [CHR 0x27]))"
  by (simp add: search_jobs_realtime_def try_except_def example_scraper_def truthy_def
      getitem_def example_objs_def)

subsection \<open>What matching changes\<close>

text \<open>
  C10, as amended. When a non-empty resume dict is supplied to \<^verbatim>\<open>search_jobs_realtime\<close>,
  the scraper returns and the scoring loop runs to its end, the returned list holds the
  scraped objects, none added and none removed, and each is the scraped dict with
  \<^verbatim>\<open>match_percentage\<close> set to a score, every other key keeping its value. For an object
  that stands once in the scraped list the score is the one the matcher returns for the
  dict as scraped; an object that stands several times is scored again on each visit, so
  its score is the one the matcher returned for it with a \<^verbatim>\<open>match_percentage\<close> already
  set.
\<close>

theorem matching_frame:
  assumes "scrape job_title loc = Inr (scraped, objs)"
    and "resume \<noteq> []"
    and "JobMatcher resume = Inr m"
    and "score_jobs (calculate m) scraped objs = Inr scored"
  shows "\<exists>ranked.
           search_jobs_realtime scrape JobMatcher calculate now job_title loc (Some resume) =
             Inr \<lparr>success = True, jobs = map scored ranked, total = Some (length scraped),
                  count = None, sources = None, error = None, timestamp = Some now\<rparr> \<and>
           mset ranked = mset scraped \<and>
           (\<forall>a k. k \<noteq> ''match_percentage'' \<longrightarrow> map_of (scored a) k = map_of (objs a) k) \<and>
           (\<forall>a\<in>set scraped.
              \<exists>p. scored a = AList.update ''match_percentage'' (Num p) (objs a) \<and>
                  (if count_list scraped a = 1 then calculate m (objs a) = Inr p
                   else \<exists>q. calculate m (AList.update ''match_percentage'' (Num q) (objs a))
                              = Inr p))"
proof -
  from scores_function [OF assms(4)] obtain g where
    g: "\<And>a. a \<in> set scraped \<Longrightarrow> getitem (scored a) ''match_percentage'' = Inr (Num (g a))"
    by blast
  let ?ranked = "rev (sort_key g (rev scraped))"
  have "search_jobs_realtime scrape JobMatcher calculate now job_title loc (Some resume) =
     Inr \<lparr>success = True, jobs = map scored ?ranked,
          total = Some (length scraped), count = None, sources = None, error = None,
          timestamp = Some now\<rparr>"
    using assms g by (rule realtime_ranked)
  moreover have "mset ?ranked = mset scraped"
    by simp
  moreover have "\<forall>a k. k \<noteq> ''match_percentage'' \<longrightarrow> map_of (scored a) k = map_of (objs a) k"
    using assms(4) by (blast intro: score_jobs_other_keys)
  moreover have "\<forall>a\<in>set scraped.
              \<exists>p. scored a = AList.update ''match_percentage'' (Num p) (objs a) \<and>
                  (if count_list scraped a = 1 then calculate m (objs a) = Inr p
                   else \<exists>q. calculate m (AList.update ''match_percentage'' (Num q) (objs a))
                              = Inr p)"
    using score_jobs_frame [OF assms(4)] by blast
  ultimately show ?thesis by blast
qed

theorem matching_frame_witness:
  "search_jobs_realtime aliased_scraper (\<lambda>r. Inr ()) (\<lambda>m j. Inr (rescore j))
       ''2026-01-01T00:00:00'' ''Engineer'' ''Austin'' (Some [(''skills'', Str ''python'')]) =
     Inr \<lparr>success = True,
          jobs = [[(''id'', Num 1), (''match_percentage'', Num 20)],
                  [(''id'', Num 1), (''match_percentage'', Num 20)],
                  [(''id'', Num 2), (''match_percentage'', Num 10)]],
          total = Some 3, count = None, sources = None, error = None,
          timestamp = Some ''2026-01-01T00:00:00''\<rparr> \<and>
   (\<lambda>j. Inr (rescore j) :: py_exc + int)
      (AList.update ''match_percentage'' (Num 10) (example_objs 0)) = Inr 20 \<and>
   (\<lambda>j. Inr (rescore j) :: py_exc + int) (example_objs 1) = Inr 10 \<and>
   search_jobs_realtime example_scraper (\<lambda>r. Inr ()) (\<lambda>m j. Inr (example_score j))
       ''2026-01-01T00:00:00'' ''Engineer'' ''Austin'' (Some [(''skills'', Str ''python'')]) =
     Inr \<lparr>success = True,
          jobs = [[(''id'', Num 3), (''match_percentage'', Num 90)],
                  [(''id'', Num 1), (''match_percentage'', Num 80)],
                  [(''id'', Num 2), (''match_percentage'', Num 80)]],
          total = Some 3, count = None, sources = None, error = None,
          timestamp = Some ''2026-01-01T00:00:00''\<rparr>"
proof -
  let ?now = "''2026-01-01T00:00:00''"
  let ?resume = "[(''skills'', Str ''python'')] :: int pydict"
  let ?scored = "\<lambda>a. if a = 0 then [(''id'', Num 1), (''match_percentage'', Num 20)]
              else if a = 1 then [(''id'', Num 2), (''match_percentage'', Num 10)]
              else example_objs a"
  let ?scored' = "\<lambda>a. if a < 3 then AList.update ''match_percentage''
                          (Num (example_score (example_objs a))) (example_objs a)
              else example_objs a"
  have s: "aliased_scraper ''Engineer'' ''Austin'' = Inr ([0, 1, 0], example_objs)"
    by (simp add: aliased_scraper_def)
  have s': "example_scraper ''Engineer'' ''Austin'' = Inr ([0, 1, 2], example_objs)"
    by (simp add: example_scraper_def)
  from matching_frame [of aliased_scraper "''Engineer''" "''Austin''" "[0, 1, 0]"
      example_objs ?resume "\<lambda>r. Inr ()" "()" "\<lambda>m j. Inr (rescore j)" ?scored ?now]
    matching_frame [of example_scraper "''Engineer''" "''Austin''" "[0, 1, 2]"
      example_objs ?resume "\<lambda>r. Inr ()" "()" "\<lambda>m j. Inr (example_score j)" ?scored' ?now]
    s s' aliased_scored example_scored aliased_response example_ranked_response
  show ?thesis
    by (simp add: rescore_def example_objs_def)
qed

text \<open>C10 as stated fails when the resume supplied is the empty dict: no
  \<^verbatim>\<open>match_percentage\<close> is added to any job.\<close>

theorem empty_resume_adds_no_field:
  "search_jobs_realtime example_scraper (\<lambda>r. Inr ()) (\<lambda>m j. Inr (example_score j))
       ''2026-01-01T00:00:00'' ''Engineer'' ''Austin'' (Some []) =
     Inr \<lparr>success = True,
          jobs = [[(''id'', Num 1)], [(''id'', Num 2)], [(''id'', Num 3)]],
          total = Some 3, count = None, sources = None, error = None,
          timestamp = Some ''2026-01-01T00:00:00''\<rparr> \<and>
   map_of [(''id'', Num (1::int))] ''match_percentage'' = None \<and>
   map_of [(''id'', Num (2::int))] ''match_percentage'' = None \<and>
   map_of [(''id'', Num (3::int))] ''match_percentage'' = None"
  by (simp add: search_jobs_realtime_def try_except_def example_scraper_def truthy_def
      example_objs_def)

section \<open>Verification of the deduplicator\<close>


lemma same_posting_refl: "same_posting T a a"
  by (simp add: same_posting_def)

lemma same_posting_sym: "same_posting T a b = same_posting T b a"
  by (auto simp: same_posting_def)






subsection \<open>Where being duplicates is transitive\<close>








subsection \<open>Survivors keep their places\<close>




subsection \<open>When two duplicates end in one survivor\<close>




subsection \<open>What URL normalization does\<close>







subsection \<open>Idempotence and first-seen order\<close>




subsection \<open>Merging duplicates\<close>




section \<open>Verification of the matcher\<close>

lemma clamp01_bounds: "0 \<le> clamp01 x \<and> clamp01 x \<le> 1"
  by (simp add: clamp01_def)

lemma skill_overlap_returns: "\<exists>s. skill_overlap resume job = Inr s"
  by (simp add: skill_overlap_def divide_by_def)

lemma title_similarity_returns: "\<exists>t. title_similarity resume job = Inr t"
  by (simp add: title_similarity_def divide_by_def Let_def)

lemma weighted_bounds:
  assumes "0 \<le> a \<and> a \<le> 1" "0 \<le> b \<and> b \<le> 1" "0 \<le> c \<and> c \<le> (1::rat)"
  shows "0 \<le> 100 * (60 / 100 * a + 25 / 100 * b + 15 / 100 * c)"
    and "100 * (60 / 100 * a + 25 / 100 * b + 15 / 100 * c) \<le> 100"
  using assms by auto

lemma round_percent:
  assumes "0 \<le> x" "x \<le> (100::rat)"
  shows "0 \<le> (of_int (round x) :: rat) \<and> (of_int (round x) :: rat) \<le> 100"
proof -
  have "round (0::rat) \<le> round x"
    using assms(1) by (rule round_mono)
  moreover have "round x \<le> round (100::rat)"
    using assms(2) by (rule round_mono)
  ultimately show ?thesis by simp
qed

text \<open>
  C4. For every resume and job, whatever band is inferred and whatever the slope of the
  decay, \<open>calculateMatchPercentage\<close> returns a value (no error), and the value lies
  between 0 and 100 inclusive; with an empty \<open>skillsMentioned\<close> the skill-overlap
  sub-score is 0, not a division error.
\<close>

theorem match_percentage_bounded:
  "(\<exists>p. calculateMatchPercentage infer_band decay resume job = Inr p \<and> 0 \<le> p \<and> p \<le> 100) \<and>
   (skillsMentioned job = {} \<longrightarrow> skill_overlap resume job = Inr 0)"
proof -
  obtain s t where st: "skill_overlap resume job = Inr s" "title_similarity resume job = Inr t"
    using skill_overlap_returns title_similarity_returns by blast
  let ?x = "100 * (60 / 100 * clamp01 s + 25 / 100 * clamp01 t +
                   15 / 100 * clamp01 (experience_fit infer_band decay resume job))"
  have "0 \<le> ?x" "?x \<le> 100"
    using weighted_bounds [OF clamp01_bounds clamp01_bounds clamp01_bounds] by blast+
  then have "0 \<le> (of_int (round ?x) :: rat) \<and> (of_int (round ?x) :: rat) \<le> 100"
    by (rule round_percent)
  with st show ?thesis
    by (simp add: calculateMatchPercentage_def skill_overlap_def)
qed

theorem match_percentage_bounded_witness:
  "calculateMatchPercentage (\<lambda>j. Some (3, 5)) (1 / 5) example_resume
     (posting ''https://site.com/job/123?ref=abc'' ''Senior Software Engineer'' ''Acme''
        ''Austin'' ''Build things.'' {}) = Inr 32 \<and>
   skill_overlap example_resume
     (posting ''https://site.com/job/123?ref=abc'' ''Senior Software Engineer'' ''Acme''
        ''Austin'' ''Build things.'' {}) = Inr 0 \<and>
   calculateMatchPercentage (\<lambda>j. Some (3, 5)) (1 / 5) example_resume
     (posting ''https://site.com/job/123?ref=abc'' ''Senior Software Engineer'' ''Acme''
        ''Austin'' ''Build things.'' {''python'', ''go'', ''rust''}) = Inr 52"
proof -
  let ?j = "posting ''https://site.com/job/123?ref=abc'' ''Senior Software Engineer'' ''Acme''
        ''Austin'' ''Build things.'' {}"
  have e1: "calculateMatchPercentage (\<lambda>j. Some (3, 5)) (1 / 5) example_resume ?j = Inr 32"
    by code_simp
  have e2: "calculateMatchPercentage (\<lambda>j. Some (3, 5)) (1 / 5) example_resume
     (posting ''https://site.com/job/123?ref=abc'' ''Senior Software Engineer'' ''Acme''
        ''Austin'' ''Build things.'' {''python'', ''go'', ''rust''}) = Inr 52"
    by code_simp
  have s: "skillsMentioned ?j = {}"
    by (simp add: posting_def)
  from match_percentage_bounded [of "\<lambda>j. Some (3, 5)" "1 / 5" example_resume ?j] e1 e2 s
  show ?thesis by simp
qed

end
